theory Spec2Isabelle
  imports Main "HOL-Library.Finite_Map" "HOL-Library.Sublist"
begin

section \<open>Exceptions\<close>

text \<open>
  The exceptions the two modules can raise. \<open>KeyValidationError\<close> is the class of
  \<^verbatim>\<open>py2store.errors\<close>; its argument is the exception it wraps (\<open>Some e\<close> for
  \<^verbatim>\<open>raise KeyValidationError(e)\<close>) or \<open>None\<close> when it is raised with a message.
  The other constructors are Python's builtin exceptions of the same names.
  A function that can raise returns \<open>error + 'a\<close>, with \<open>Inl\<close> for the exception.
\<close>

datatype error =
    IndexError
  | KeyError
  | ValueError
  | NotImplementedError
  | KeyValidationError "error option"

fun is_KeyValidationError :: "error \<Rightarrow> bool" where
  "is_KeyValidationError (KeyValidationError _) = True"
| "is_KeyValidationError _ = False"

text \<open>
  Modelled from the spec: \<^verbatim>\<open>_assert_condition\<close> of \<^verbatim>\<open>py2store.errors\<close>, which is not
  among the sources. The spec gives it as the primitive that raises a typed error when a
  boolean condition is false; the error class is the argument \<^verbatim>\<open>err_cls\<close>.
\<close>

definition assert_condition :: "bool \<Rightarrow> error \<Rightarrow> error + unit" where
  "assert_condition condition err = (if condition then Inr () else Inl err)"

text \<open>
  \<^verbatim>\<open>__assert_condition = partial(_assert_condition, err_cls=KeyValidationError)\<close>
\<close>

definition assert_condition_kv :: "bool \<Rightarrow> error + unit" where
  "assert_condition_kv condition = assert_condition condition (KeyValidationError None)"

section \<open>base.py: the key collection and the store\<close>

text \<open>
  \<^verbatim>\<open>AbstractKeys\<close> leaves \<^verbatim>\<open>__iter__\<close> to the concrete class. A full iteration is the
  list of the keys it yields, in order. The two mixin methods are loops over it.

  \<^verbatim>\<open>
  count = 0
  for _ in self.__iter__():
      count += 1
  return count
  \<close>
\<close>

fun count_loop :: "'k list \<Rightarrow> int \<Rightarrow> int" where
  "count_loop [] count = count"
| "count_loop (_ # rest) count = count_loop rest (count + 1)"

definition AbstractKeys_len :: "'k list \<Rightarrow> int" where
  "AbstractKeys_len iter = count_loop iter 0"

text \<open>
  \<^verbatim>\<open>
  for collection_key in self.__iter__():
      if collection_key == k:
          return True
  return False
  \<close>
\<close>

fun AbstractKeys_contains :: "'k list \<Rightarrow> 'k \<Rightarrow> bool" where
  "AbstractKeys_contains [] k = False"
| "AbstractKeys_contains (collection_key # rest) k =
     (if collection_key = k then True else AbstractKeys_contains rest k)"

text \<open>
  \<^verbatim>\<open>AbstractObjStore.clear\<close> takes the store and raises. The model returns the outcome
  together with the backend state after the call.
\<close>

definition clear :: "'store \<Rightarrow> (error + unit) \<times> 'store" where
  "clear self = (Inl NotImplementedError, self)"

section \<open>key_mappers/tuples.py: tuples and dicts\<close>

text \<open>
  A dict is a finite map; \<^verbatim>\<open>len(d)\<close> is the number of its keys and \<^verbatim>\<open>d[f]\<close> raises
  \<open>KeyError\<close> on a key that is absent. Two dicts are equal in Python when they have the
  same keys with equal values, whatever the insertion order, which is equality of finite
  maps. A tuple is a list.
\<close>

definition len_dict :: "('k, 'v) fmap \<Rightarrow> nat" where
  "len_dict d = fcard (fmdom d)"

definition getitem :: "('k, 'v) fmap \<Rightarrow> 'k \<Rightarrow> error + 'v" where
  "getitem d f = (case fmlookup d f of None \<Rightarrow> Inl KeyError | Some v \<Rightarrow> Inr v)"

text \<open>\<^verbatim>\<open>tuple(d[f] for f in fields)\<close>: the first absent field raises.\<close>

fun getitems :: "('k, 'v) fmap \<Rightarrow> 'k list \<Rightarrow> error + 'v list" where
  "getitems d [] = Inr []"
| "getitems d (f # fields) =
     (case getitem d f of
        Inl e \<Rightarrow> Inl e
      | Inr v \<Rightarrow> (case getitems d fields of Inl e \<Rightarrow> Inl e | Inr vs \<Rightarrow> Inr (v # vs)))"

definition tuple_of_dict :: "('k, 'v) fmap \<Rightarrow> 'k list \<Rightarrow> error + 'v list" where
  "tuple_of_dict d fields =
     (case assert_condition_kv (length fields = len_dict d) of
        Inl e \<Rightarrow> Inl e
      | Inr _ \<Rightarrow> getitems d fields)"

text \<open>
  \<^verbatim>\<open>{f: x for f, x in zip(fields, t)}\<close>: the pairs are stored from left to right, so a
  field that occurs twice keeps its last value.
\<close>

fun dict_comprehension :: "('k \<times> 'v) list \<Rightarrow> ('k, 'v) fmap \<Rightarrow> ('k, 'v) fmap" where
  "dict_comprehension [] d = d"
| "dict_comprehension ((f, x) # pairs) d = dict_comprehension pairs (fmupd f x d)"

definition dict_of_tuple :: "'v list \<Rightarrow> 'k list \<Rightarrow> error + ('k, 'v) fmap" where
  "dict_of_tuple t fields =
     (case assert_condition_kv (length fields = length t) of
        Inl e \<Rightarrow> Inl e
      | Inr _ \<Rightarrow> Inr (dict_comprehension (zip fields t) fmempty))"

section \<open>key_mappers/tuples.py: strings and patterns\<close>

text \<open>
  A compiled pattern belongs to Python's \<^verbatim>\<open>re\<close> module. It is identified here with its
  \<^verbatim>\<open>match\<close> method, which looks for a match that starts at the beginning of the string (it
  need not reach the end) and returns a match object, or \<^verbatim>\<open>None\<close>. A match object is
  always true as a condition. \<^verbatim>\<open>groups()\<close> is the tuple of the captured groups and
  \<^verbatim>\<open>groupdict()\<close> the dict of the named ones; a group that took no part in the match is
  \<^verbatim>\<open>None\<close>.
\<close>

datatype match_object =
  Match (groups: "string option list") (groupdict: "(string, string option) fmap")

type_synonym compiled_regex = "string \<Rightarrow> match_object option"

definition tuple_of_str :: "string \<Rightarrow> compiled_regex \<Rightarrow> error + string option list" where
  "tuple_of_str s compiled_regex =
     (case compiled_regex s of
        Some m \<Rightarrow> Inr (groups m)
      | None \<Rightarrow> Inl (KeyValidationError None))"

definition dict_of_str :: "string \<Rightarrow> compiled_regex \<Rightarrow> error + (string, string option) fmap" where
  "dict_of_str s compiled_regex =
     (case compiled_regex s of
        Some m \<Rightarrow> Inr (groupdict m)
      | None \<Rightarrow> Inl (KeyValidationError None))"

text \<open>
  The patterns of the docstrings, written as their \<^verbatim>\<open>match\<close> methods on ASCII strings:
  \<^verbatim>\<open>re.compile('(\d{3})\w')\<close>, \<^verbatim>\<open>re.compile('(\d{4})')\<close> and
  \<^verbatim>\<open>re.compile('(?P<Domain>[a-zA-Z0-9]+)(?=\.com)')\<close>.
\<close>

definition is_digit :: "char \<Rightarrow> bool" where
  "is_digit c = (c \<in> set ''0123456789'')"

definition is_alnum :: "char \<Rightarrow> bool" where
  "is_alnum c =
     (is_digit c \<or> c \<in> set ''abcdefghijklmnopqrstuvwxyzABCDEFGHIJKLMNOPQRSTUVWXYZ'')"

definition is_word :: "char \<Rightarrow> bool" where
  "is_word c = (is_alnum c \<or> c = CHR ''_'')"

definition three_digits_word :: compiled_regex where
  "three_digits_word s =
     (if 4 \<le> length s \<and> list_all is_digit (take 3 s) \<and> is_word (s ! 3)
      then Some (Match [Some (take 3 s)] fmempty)
      else None)"

definition four_digits :: compiled_regex where
  "four_digits s =
     (if 4 \<le> length s \<and> list_all is_digit (take 4 s)
      then Some (Match [Some (take 4 s)] fmempty)
      else None)"

definition domain_before_com :: compiled_regex where
  "domain_before_com s =
     (let name = takeWhile is_alnum s
      in if name \<noteq> [] \<and> prefix ''.com'' (dropWhile is_alnum s)
         then Some (Match [Some name] (fmupd ''Domain'' (Some name) fmempty))
         else None)"

section \<open>key_mappers/tuples.py: format templates\<close>

text \<open>
  The values that are put into a template are integers and strings; \<^verbatim>\<open>str\<close> writes an
  integer in decimal.
\<close>

datatype pyval = PInt int | PStr string

definition digit_char :: "nat \<Rightarrow> char" where
  "digit_char n = ''0123456789'' ! n"

function digits_of_nat :: "nat \<Rightarrow> string" where
  "digits_of_nat n =
     (if n < 10 then [digit_char n] else digits_of_nat (n div 10) @ [digit_char (n mod 10)])"
  by pat_completeness auto
termination
  by (relation "measure id") auto

definition str :: "pyval \<Rightarrow> string" where
  "str v =
     (case v of
        PInt i \<Rightarrow> (if i < 0 then CHR ''-'' # digits_of_nat (nat (- i)) else digits_of_nat (nat i))
      | PStr s \<Rightarrow> s)"

fun nat_of_digits :: "string \<Rightarrow> nat \<Rightarrow> nat" where
  "nat_of_digits [] accumulator = accumulator"
| "nat_of_digits (c # cs) accumulator =
     nat_of_digits cs (accumulator * 10 + (of_char c - of_char CHR ''0''))"

text \<open>
  A format specification is what follows the colon of a replacement field; Python hands it,
  with the value, to the value's \<^verbatim>\<open>__format__\<close>. Its parts are read in this order: a fill
  character with an alignment (one of \<^verbatim>\<open><\<close>, \<^verbatim>\<open>>\<close>, \<^verbatim>\<open>=\<close>, \<^verbatim>\<open>^\<close>) or an alignment alone, a
  width, a precision after a dot, and one character for the type. What is left over after
  a type makes the specification invalid, as does a dot without digits (\<open>ValueError\<close>).

  The model covers these parts. A sign, the flags \<^verbatim>\<open>z\<close>, \<^verbatim>\<open>#\<close> and \<^verbatim>\<open>0\<close>, a grouping option and
  a width or precision of more than six digits are outside it: there the result is \<open>None\<close>,
  which says nothing about what Python does.
\<close>

definition is_align :: "char \<Rightarrow> bool" where
  "is_align c = (c \<in> set ''<>=^'')"

datatype format_spec =
  Format_Spec (spec_fill: char) (spec_align: "char option") (spec_width: "nat option")
    (spec_precision: "nat option") (spec_type: "char option")

fun parse_fill_align :: "string \<Rightarrow> char \<times> char option \<times> bool \<times> string" where
  "parse_fill_align (c # a # rest) =
     (if is_align a then (c, Some a, True, rest)
      else if is_align c then (CHR '' '', Some c, False, a # rest)
      else (CHR '' '', None, False, c # a # rest))"
| "parse_fill_align [c] =
     (if is_align c then (CHR '' '', Some c, False, []) else (CHR '' '', None, False, [c]))"
| "parse_fill_align [] = (CHR '' '', None, False, [])"

definition parse_type ::
  "char \<Rightarrow> char option \<Rightarrow> string \<Rightarrow> string option \<Rightarrow> string \<Rightarrow> (error + format_spec) option" where
  "parse_type fill align w p rest =
     (if 1 < length rest then Some (Inl ValueError)
      else Some (Inr (Format_Spec fill align
             (if w = [] then None else Some (nat_of_digits w 0))
             (case p of None \<Rightarrow> None | Some ds \<Rightarrow> Some (nat_of_digits ds 0))
             (case rest of [] \<Rightarrow> None | c # _ \<Rightarrow> Some c))))"

definition parse_format_spec :: "string \<Rightarrow> (error + format_spec) option" where
  "parse_format_spec format_spec =
     (case parse_fill_align format_spec of
        (fill, align, fill_specified, r1) \<Rightarrow>
          if r1 \<noteq> [] \<and> (hd r1 \<in> set ''+- z#'' \<or> (hd r1 = CHR ''0'' \<and> \<not> fill_specified))
          then None
          else
            (let w = takeWhile is_digit r1; r2 = dropWhile is_digit r1
             in if 6 < length w \<or> (r2 \<noteq> [] \<and> hd r2 \<in> set '',_'') then None
                else if r2 \<noteq> [] \<and> hd r2 = CHR ''.'' then
                  (let p = takeWhile is_digit (tl r2); r3 = dropWhile is_digit (tl r2)
                   in if p = [] then Some (Inl ValueError)
                      else if 6 < length p then None
                      else parse_type fill align w (Some p) r3)
                else parse_type fill align w None r2))"

text \<open>
  The padding of a formatted value to the width: on the right for \<^verbatim>\<open><\<close>, on the left for
  \<^verbatim>\<open>>\<close>, on both sides for \<^verbatim>\<open>^\<close> (the smaller half on the left), between the sign and the
  digits for \<^verbatim>\<open>=\<close>. A value that fills the width gets no padding.
\<close>

definition pad :: "char \<Rightarrow> char \<Rightarrow> nat option \<Rightarrow> string \<Rightarrow> string \<Rightarrow> string" where
  "pad fill align width sign body =
     (let n_padding = (case width of None \<Rightarrow> 0 | Some w \<Rightarrow> w - (length sign + length body))
      in if align = CHR ''<'' then sign @ body @ replicate n_padding fill
         else if align = CHR ''>'' then replicate n_padding fill @ sign @ body
         else if align = CHR ''^'' then
           replicate (n_padding div 2) fill @ sign @ body
             @ replicate (n_padding - n_padding div 2) fill
         else sign @ replicate n_padding fill @ body)"

text \<open>
  \<^verbatim>\<open>format(value, format_spec)\<close>. An empty specification gives \<^verbatim>\<open>str(value)\<close>. A string takes
  the type \<^verbatim>\<open>s\<close> only and no alignment \<^verbatim>\<open>=\<close>; it is cut to the precision, then padded,
  to the left by default. An integer with the type \<^verbatim>\<open>d\<close> (the default) takes no precision
  and is padded to the right by default; the integer types \<^verbatim>\<open>b\<close>, \<^verbatim>\<open>c\<close>, \<^verbatim>\<open>o\<close>, \<^verbatim>\<open>x\<close>, \<^verbatim>\<open>X\<close>,
  \<^verbatim>\<open>n\<close> and the floating point types are outside the model (\<open>None\<close>). Any other type
  character is a \<open>ValueError\<close>: the value's type does not know the format code.
\<close>

definition format_value :: "pyval \<Rightarrow> string \<Rightarrow> (error + string) option" where
  "format_value v format_spec =
     (if format_spec = [] then Some (Inr (str v))
      else
        (case parse_format_spec format_spec of
           None \<Rightarrow> None
         | Some (Inl e) \<Rightarrow> Some (Inl e)
         | Some (Inr sp) \<Rightarrow>
             (case v of
                PStr s \<Rightarrow>
                  (if spec_type sp \<noteq> None \<and> spec_type sp \<noteq> Some CHR ''s''
                   then Some (Inl ValueError)
                   else if spec_align sp = Some CHR ''='' then Some (Inl ValueError)
                   else Some (Inr (pad (spec_fill sp)
                          (case spec_align sp of None \<Rightarrow> CHR ''<'' | Some a \<Rightarrow> a)
                          (spec_width sp) []
                          (case spec_precision sp of None \<Rightarrow> s | Some p \<Rightarrow> take p s))))
              | PInt i \<Rightarrow>
                  (if spec_type sp = None \<or> spec_type sp = Some CHR ''d'' then
                     (if spec_precision sp \<noteq> None then Some (Inl ValueError)
                      else Some (Inr (pad (spec_fill sp)
                             (case spec_align sp of None \<Rightarrow> CHR ''>'' | Some a \<Rightarrow> a)
                             (spec_width sp) (if i < 0 then ''-'' else [])
                             (digits_of_nat (nat \<bar>i\<bar>)))))
                   else if list_ex (\<lambda>c. spec_type sp = Some c) ''bcoxXneEfFgG%'' then None
                   else Some (Inl ValueError)))))"

text \<open>
  \<^verbatim>\<open>str.format\<close> is Python's. The model follows the interpreter from left to right over the
  template: \<^verbatim>\<open>{{\<close> and \<^verbatim>\<open>}}\<close> are literal braces, a lone brace is a \<open>ValueError\<close>, and a
  replacement field runs to the next \<^verbatim>\<open>}\<close>. The field is its name and, after the first
  colon, its format specification. An empty name takes the next positional argument, a
  decimal one the argument of that index, any other the keyword argument of that name.
  Automatic and explicit numbering cannot be mixed (\<open>ValueError\<close>); an index out of range
  is an \<open>IndexError\<close>, an absent keyword a \<open>KeyError\<close>. Arguments that no field uses are
  ignored. The field is replaced by its value, formatted by the specification.

  The model covers the templates whose fields have no conversion (\<^verbatim>\<open>!\<close>), no attribute or
  index lookup (\<^verbatim>\<open>.\<close>, \<^verbatim>\<open>[\<close>), no nested field and no index of more than 18 digits. On any
  other template the result is \<open>None\<close>: it says nothing about what Python does there.
\<close>

definition field_name :: "string \<Rightarrow> string" where
  "field_name field = takeWhile (\<lambda>c. c \<noteq> CHR '':'') field"

definition field_spec :: "string \<Rightarrow> string" where
  "field_spec field = drop (Suc (length (field_name field))) field"

datatype numbering = ANS_INIT | ANS_AUTO nat | ANS_MANUAL

definition getitem_args :: "pyval list \<Rightarrow> nat \<Rightarrow> error + pyval" where
  "getitem_args args i = (if i < length args then Inr (args ! i) else Inl IndexError)"

definition get_field ::
  "numbering \<Rightarrow> pyval list \<Rightarrow> (string, pyval) fmap \<Rightarrow> string \<Rightarrow> error + (pyval \<times> numbering)" where
  "get_field st args kwargs name =
     (if name = [] then
        (case st of
           ANS_MANUAL \<Rightarrow> Inl ValueError
         | ANS_INIT \<Rightarrow>
             (case getitem_args args 0 of Inl e \<Rightarrow> Inl e | Inr v \<Rightarrow> Inr (v, ANS_AUTO 1))
         | ANS_AUTO i \<Rightarrow>
             (case getitem_args args i of Inl e \<Rightarrow> Inl e | Inr v \<Rightarrow> Inr (v, ANS_AUTO (i + 1))))
      else if list_all is_digit name then
        (case st of
           ANS_AUTO _ \<Rightarrow> Inl ValueError
         | _ \<Rightarrow>
             (case getitem_args args (nat_of_digits name 0) of
                Inl e \<Rightarrow> Inl e
              | Inr v \<Rightarrow> Inr (v, ANS_MANUAL)))
      else
        (case fmlookup kwargs name of None \<Rightarrow> Inl KeyError | Some v \<Rightarrow> Inr (v, st)))"

definition beyond_fragment :: "string \<Rightarrow> bool" where
  "beyond_fragment field =
     (list_ex (\<lambda>c. c \<in> set ''{['') field
      \<or> list_ex (\<lambda>c. c \<in> set ''.!'') (field_name field)
      \<or> (list_all is_digit (field_name field) \<and> 18 < length (field_name field)))"

definition emit :: "string \<Rightarrow> (error + string) option \<Rightarrow> (error + string) option" where
  "emit out rest = (case rest of Some (Inr s) \<Rightarrow> Some (Inr (out @ s)) | other \<Rightarrow> other)"

text \<open>
  The formatted field goes to the output and the rest of the template follows; a field that
  raised ends the call.
\<close>

definition emit_value ::
  "(error + string) option \<Rightarrow> (error + string) option \<Rightarrow> (error + string) option" where
  "emit_value rendered rest =
     (case rendered of
        None \<Rightarrow> None
      | Some (Inl e) \<Rightarrow> Some (Inl e)
      | Some (Inr s) \<Rightarrow> emit s rest)"

function format_from ::
  "numbering \<Rightarrow> pyval list \<Rightarrow> (string, pyval) fmap \<Rightarrow> string \<Rightarrow> (error + string) option" where
  "format_from st args kwargs [] = Some (Inr [])"
| "format_from st args kwargs (c # cs) =
     (if c = CHR ''{'' then
        (case cs of
           [] \<Rightarrow> Some (Inl ValueError)
         | c' # cs' \<Rightarrow>
             if c' = CHR ''{'' then emit [CHR ''{''] (format_from st args kwargs cs')
             else
               (let field = takeWhile (\<lambda>x. x \<noteq> CHR ''}'') cs;
                    rest = dropWhile (\<lambda>x. x \<noteq> CHR ''}'') cs
                in if beyond_fragment field then None
                   else if rest = [] then Some (Inl ValueError)
                   else (case get_field st args kwargs (field_name field) of
                           Inl e \<Rightarrow> Some (Inl e)
                         | Inr (v, st') \<Rightarrow>
                             emit_value (format_value v (field_spec field))
                               (format_from st' args kwargs (tl rest)))))
      else if c = CHR ''}'' then
        (case cs of
           [] \<Rightarrow> Some (Inl ValueError)
         | c' # cs' \<Rightarrow>
             if c' = CHR ''}'' then emit [CHR ''}''] (format_from st args kwargs cs')
             else Some (Inl ValueError))
      else emit [c] (format_from st args kwargs cs))"
  by pat_completeness auto
termination
proof (relation "measure (\<lambda>(st, args, kwargs, s). length s)", goal_cases)
  case (3 st args kwargs c cs c' cs' field rest e v st')
  have "length (dropWhile (\<lambda>x. x \<noteq> CHR ''}'') cs) \<le> length cs"
    by (rule length_dropWhile_le)
  with 3 show ?case by (cases rest) auto
qed auto

definition format ::
  "string \<Rightarrow> pyval list \<Rightarrow> (string, pyval) fmap \<Rightarrow> (error + string) option" where
  "format str_format args kwargs = format_from ANS_INIT args kwargs str_format"


definition str_of_dict :: "(string, pyval) fmap \<Rightarrow> string \<Rightarrow> (error + string) option" where
  "str_of_dict d str_format =
     (case format str_format [] d of
        None \<Rightarrow> None
      | Some (Inl e) \<Rightarrow> Some (Inl (KeyValidationError (Some e)))
      | Some (Inr s) \<Rightarrow> Some (Inr s))"

text \<open>
  To speak of all the templates of a given shape, a template is built from its pieces: a
  character of literal text (a brace is written doubled) or a replacement field, given by
  the text between its braces. \<open>populate_named\<close> is the text with each field replaced by the
  value the dict has for its name.
\<close>

datatype piece = Text char | Field string

fun template_of :: "piece list \<Rightarrow> string" where
  "template_of [] = []"
| "template_of (Text c # ps) =
     (if c = CHR ''{'' then ''{{'' else if c = CHR ''}'' then ''}}'' else [c]) @ template_of ps"
| "template_of (Field name # ps) = CHR ''{'' # name @ CHR ''}'' # template_of ps"


fun field_names :: "piece list \<Rightarrow> string list" where
  "field_names [] = []"
| "field_names (Text c # ps) = field_names ps"
| "field_names (Field name # ps) = name # field_names ps"

fun populate_named :: "piece list \<Rightarrow> (string, pyval) fmap \<Rightarrow> string" where
  "populate_named [] d = []"
| "populate_named (Text c # ps) d = c # populate_named ps d"
| "populate_named (Field name # ps) d =
     (case fmlookup d name of None \<Rightarrow> [] | Some v \<Rightarrow> str v) @ populate_named ps d"

text \<open>A field name that \<^verbatim>\<open>str.format\<close> looks up among the keyword arguments.\<close>

definition keyword_name :: "string \<Rightarrow> bool" where
  "keyword_name name =
     (name \<noteq> [] \<and> \<not> list_all is_digit name \<and> \<not> list_ex (\<lambda>c. c \<in> set ''{}[.!:'') name)"













section \<open>key_mappers/tuples.py: delimiter-separated values\<close>






section \<open>The derived operations of the key collection\<close>

lemma count_loop_length: "count_loop iter count = count + int (length iter)"
  by (induction iter arbitrary: count) simp_all

lemma AbstractKeys_contains_set: "AbstractKeys_contains iter k \<longleftrightarrow> k \<in> set iter"
  by (induction iter) auto

text \<open>
  C1. With the keys of a full iteration collected in the list \<open>iter\<close>, the derived
  membership test holds exactly for the keys that occur in the list, and the derived count
  is the number of elements of the list.
\<close>

theorem derived_contains_len:
  "(AbstractKeys_contains iter k \<longleftrightarrow> k \<in> set iter)
   \<and> AbstractKeys_len iter = int (length iter)"
  by (simp add: AbstractKeys_contains_set AbstractKeys_len_def count_loop_length)

text \<open>
  C2. Clearing a store raises \<open>NotImplementedError\<close> whatever the backend state is, and
  leaves that state as it was.
\<close>

theorem clear_unsupported:
  "fst (clear self) = Inl NotImplementedError \<and> snd (clear self) = self"
  by (simp add: clear_def)

section \<open>Tuples and dicts\<close>

lemma len_dict_fmempty: "len_dict fmempty = 0"
  by (simp add: len_dict_def)

lemma len_dict_fmupd:
  "len_dict (fmupd k v d) = (if k |\<in>| fmdom d then len_dict d else Suc (len_dict d))"
  by (simp add: len_dict_def fcard_finsert_if)

lemmas dict_eval = tuple_of_dict_def dict_of_tuple_def assert_condition_kv_def
  assert_condition_def len_dict_fmempty len_dict_fmupd getitem_def

lemma fmlookup_dict_comprehension:
  "fmlookup (dict_comprehension pairs d) k =
     (case map_of (rev pairs) k of None \<Rightarrow> fmlookup d k | Some v \<Rightarrow> Some v)"
  by (induction pairs d rule: dict_comprehension.induct) (auto split: option.splits)

lemma fmdom_dict_comprehension:
  "fmdom (dict_comprehension pairs d) = fset_of_list (map fst pairs) |\<union>| fmdom d"
  by (induction pairs d rule: dict_comprehension.induct) auto

lemma getitems_nth:
  "length fields = length t \<Longrightarrow>
   (\<forall>i < length fields. fmlookup d (fields ! i) = Some (t ! i)) \<Longrightarrow>
   getitems d fields = Inr t"
proof (induction fields t rule: list_induct2)
  case Nil
  then show ?case by simp
next
  case (Cons f fs x xs)
  from Cons.prems have "fmlookup d f = Some x" by auto
  moreover from Cons.prems have "\<forall>i < length fs. fmlookup d (fs ! i) = Some (xs ! i)" by auto
  ultimately show ?case using Cons.IH by (simp add: getitem_def)
qed

lemma len_dict_distinct:
  "distinct fields \<Longrightarrow> fmdom d = fset_of_list fields \<Longrightarrow> len_dict d = length fields"
  by (simp add: len_dict_def fcard.rep_eq fset_of_list.rep_eq distinct_card)

lemma map_of_rev_zip_self:
  "map_of (rev (zip fields (map g fields))) k = (if k \<in> set fields then Some (g k) else None)"
proof -
  have "zip fields (map g fields) = map (\<lambda>f. (f, g f)) fields"
    by (induction fields) simp_all
  then have "rev (zip fields (map g fields)) = map (\<lambda>f. (f, g f)) (rev fields)"
    by (simp add: rev_map)
  then show ?thesis
    by (simp add: map_of_map_restrict restrict_map_def)
qed

lemma map_of_rev_distinct: "distinct (map fst xs) \<Longrightarrow> map_of (rev xs) = map_of xs"
  by (induction xs)
    (auto simp: map_add_def fun_eq_iff split: option.splits dest: map_of_SomeD
      intro: rev_image_eqI)

text \<open>
  C3. When the field list is a permutation of the keys of \<open>d\<close> (it has no repetition and
  its elements are the keys of \<open>d\<close>), \<open>tuple_of_dict\<close> returns a tuple and \<open>dict_of_tuple\<close>
  turns that tuple back into \<open>d\<close>.
\<close>

theorem dict_roundtrip:
  assumes "distinct fields" and "set fields = fset (fmdom d)"
  shows "\<exists>t. tuple_of_dict d fields = Inr t \<and> dict_of_tuple t fields = Inr d"
proof -
  have dom: "fmdom d = fset_of_list fields"
    using assms(2) by (metis fset_inverse fset_of_list.rep_eq)
  have len: "len_dict d = length fields"
    using assms(1) dom by (rule len_dict_distinct)
  let ?t = "map (\<lambda>f. the (fmlookup d f)) fields"
  have "\<forall>i < length fields. fmlookup d (fields ! i) = Some (?t ! i)"
    using assms(2) by (auto simp: fmlookup_dom_iff dest!: nth_mem)
  then have "getitems d fields = Inr ?t"
    by (intro getitems_nth) simp_all
  then have t: "tuple_of_dict d fields = Inr ?t"
    by (simp add: tuple_of_dict_def assert_condition_kv_def assert_condition_def len)
  have "dict_comprehension (zip fields ?t) fmempty = d"
  proof (rule fmap_ext)
    fix k
    show "fmlookup (dict_comprehension (zip fields ?t) fmempty) k = fmlookup d k"
      using assms(2)
      by (auto simp: fmlookup_dict_comprehension map_of_rev_zip_self fmlookup_dom_iff
          intro: sym dest: fmdom_notD)
  qed
  then have "dict_of_tuple ?t fields = Inr d"
    by (simp add: dict_of_tuple_def assert_condition_kv_def assert_condition_def)
  with t show ?thesis by blast
qed

text \<open>
  C3, at the dict \<^verbatim>\<open>{'a': 1, 'b': 2, 'c': 3}\<close> of the docstring and the fields
  \<^verbatim>\<open>['c', 'b', 'a']\<close>.
\<close>

theorem dict_roundtrip_witness:
  "distinct [''c'', ''b'', ''a'']
   \<and> set [''c'', ''b'', ''a''] =
       fset (fmdom (fmupd ''a'' (1::int) (fmupd ''b'' 2 (fmupd ''c'' 3 fmempty))))
   \<and> (\<exists>t. tuple_of_dict (fmupd ''a'' (1::int) (fmupd ''b'' 2 (fmupd ''c'' 3 fmempty)))
              [''c'', ''b'', ''a''] = Inr t
          \<and> dict_of_tuple t [''c'', ''b'', ''a'']
              = Inr (fmupd ''a'' (1::int) (fmupd ''b'' 2 (fmupd ''c'' 3 fmempty))))"
proof -
  have h1: "distinct [''c'', ''b'', ''a'']" by simp
  have h2: "set [''c'', ''b'', ''a''] =
       fset (fmdom (fmupd ''a'' (1::int) (fmupd ''b'' 2 (fmupd ''c'' 3 fmempty))))"
    by auto
  show ?thesis using h1 h2 dict_roundtrip [OF h1 h2] by blast
qed

text \<open>
  C4 as stated fails when a field is repeated: \<^verbatim>\<open>dict_of_tuple((1, 2), ['a', 'a'])\<close> is
  the one-key dict \<^verbatim>\<open>{'a': 2}\<close>, on which \<open>tuple_of_dict\<close> with the same two fields raises
  the key validation error.
\<close>

theorem tuple_roundtrip_counterexample:
  "length [''a'', ''a''] = length [1::int, 2]
   \<and> dict_of_tuple [1::int, 2] [''a'', ''a''] = Inr (fmupd ''a'' 2 fmempty)
   \<and> tuple_of_dict (fmupd ''a'' (2::int) fmempty) [''a'', ''a'']
       = Inl (KeyValidationError None)"
  by (simp add: dict_eval)

text \<open>
  C4, amended. For a tuple \<open>t\<close> and a field list of the same length in which no field is
  repeated, \<open>dict_of_tuple\<close> returns a dict and \<open>tuple_of_dict\<close> turns that dict back
  into \<open>t\<close>.
\<close>

theorem tuple_roundtrip:
  assumes "length fields = length t" and "distinct fields"
  shows "\<exists>d. dict_of_tuple t fields = Inr d \<and> tuple_of_dict d fields = Inr t"
proof -
  let ?d = "dict_comprehension (zip fields t) fmempty"
  have d: "dict_of_tuple t fields = Inr ?d"
    using assms(1) by (simp add: dict_of_tuple_def assert_condition_kv_def assert_condition_def)
  have "fmdom ?d = fset_of_list fields"
    using assms(1) by (simp add: fmdom_dict_comprehension)
  with assms(2) have len: "len_dict ?d = length fields"
    by (simp add: len_dict_distinct)
  have "map_of (rev (zip fields t)) = map_of (zip fields t)"
    using assms by (simp add: map_of_rev_distinct)
  then have "\<forall>i < length fields. fmlookup ?d (fields ! i) = Some (t ! i)"
    using assms by (simp add: fmlookup_dict_comprehension map_of_zip_nth)
  with assms(1) have "getitems ?d fields = Inr t"
    by (rule getitems_nth)
  then have "tuple_of_dict ?d fields = Inr t"
    by (simp add: tuple_of_dict_def assert_condition_kv_def assert_condition_def len)
  with d show ?thesis by blast
qed

text \<open>C4, amended, at the tuple \<^verbatim>\<open>(1, 2, 3)\<close> and the fields \<^verbatim>\<open>('c', 'b', 'a')\<close>.\<close>

theorem tuple_roundtrip_witness:
  "length [''c'', ''b'', ''a''] = length [1::int, 2, 3]
   \<and> distinct [''c'', ''b'', ''a'']
   \<and> (\<exists>d. dict_of_tuple [1::int, 2, 3] [''c'', ''b'', ''a''] = Inr d
          \<and> tuple_of_dict d [''c'', ''b'', ''a''] = Inr [1, 2, 3])"
proof -
  have h1: "length [''c'', ''b'', ''a''] = length [1::int, 2, 3]" by simp
  have h2: "distinct [''c'', ''b'', ''a'']" by simp
  show ?thesis using h1 h2 tuple_roundtrip [OF h1 h2] by blast
qed

text \<open>
  C6. \<open>tuple_of_dict\<close> raises the key validation error whenever the number of fields is
  not the number of keys of the dict, and \<open>dict_of_tuple\<close> whenever it is not the length
  of the tuple; so does \<^verbatim>\<open>tuple_of_dict({'a': 1, 'b': 2}, ['a'])\<close>.
\<close>

theorem arity_enforcement:
  "(length fields \<noteq> len_dict d \<longrightarrow> tuple_of_dict d fields = Inl (KeyValidationError None))
   \<and> (length fields' \<noteq> length t \<longrightarrow> dict_of_tuple t fields' = Inl (KeyValidationError None))
   \<and> tuple_of_dict (fmupd ''a'' (1::int) (fmupd ''b'' 2 fmempty)) [''a'']
       = Inl (KeyValidationError None)"
  by (simp add: dict_eval)

text \<open>
  C6, at the two failing calls of the docstrings: three keys with two fields, and three
  elements with two fields.
\<close>

theorem arity_enforcement_witness:
  "length [''a'', ''b''] \<noteq> len_dict (fmupd ''a'' (1::int) (fmupd ''b'' 2 (fmupd ''c'' 3 fmempty)))
   \<and> tuple_of_dict (fmupd ''a'' (1::int) (fmupd ''b'' 2 (fmupd ''c'' 3 fmempty))) [''a'', ''b'']
       = Inl (KeyValidationError None)
   \<and> length [''c'', ''b''] \<noteq> length [1::int, 2, 3]
   \<and> dict_of_tuple [1::int, 2, 3] [''c'', ''b''] = Inl (KeyValidationError None)"
  using arity_enforcement [of "[''a'', ''b'']"
      "fmupd ''a'' (1::int) (fmupd ''b'' 2 (fmupd ''c'' 3 fmempty))"
      "[''c'', ''b'']" "[1::int, 2, 3]"]
  by (simp add: len_dict_fmempty len_dict_fmupd)

text \<open>
  C10. Every failure of a codec should be a key validation error, also that of
  \<open>tuple_of_dict\<close> on a field list that has as many fields as the dict has keys but holds
  a field that is not a key. The code does otherwise: in
  \<^verbatim>\<open>tuple_of_dict({'a': 1}, ['b'])\<close> the length check passes and the lookup \<^verbatim>\<open>d['b']\<close>
  raises Python's \<open>KeyError\<close>, which is not a key validation error.
\<close>

theorem tuple_of_dict_KeyError:
  "length [''b''] = len_dict (fmupd ''a'' (1::int) fmempty)
   \<and> ''b'' |\<notin>| fmdom (fmupd ''a'' (1::int) fmempty)
   \<and> tuple_of_dict (fmupd ''a'' (1::int) fmempty) [''b''] = Inl KeyError
   \<and> \<not> is_KeyValidationError KeyError"
  by (simp add: dict_eval)

section \<open>Delimiter-separated values\<close>








section \<open>Strings parsed by a pattern\<close>

text \<open>
  C7. When the pattern matches the string, \<open>tuple_of_str\<close> returns the groups of the
  match and \<open>dict_of_str\<close> its named groups; \<open>tuple_of_str\<close> raises, and then the key
  validation error, exactly when the pattern does not match, and \<open>dict_of_str\<close> raises the
  key validation error when it does not match.
\<close>

theorem parse_by_pattern:
  "(compiled_regex s = Some m \<longrightarrow>
      tuple_of_str s compiled_regex = Inr (groups m)
      \<and> dict_of_str s compiled_regex = Inr (groupdict m))
   \<and> ((\<exists>e. tuple_of_str s compiled_regex = Inl e) \<longleftrightarrow> compiled_regex s = None)
   \<and> (tuple_of_str s compiled_regex = Inl (KeyValidationError None)
        \<longleftrightarrow> compiled_regex s = None)
   \<and> (dict_of_str s compiled_regex = Inl (KeyValidationError None)
        \<longleftrightarrow> compiled_regex s = None)"
  by (auto simp: tuple_of_str_def dict_of_str_def split: option.splits)

text \<open>
  C7, at the string \<^verbatim>\<open>'123ABC'\<close> and the first pattern of the docstring, which matches it
  and captures \<^verbatim>\<open>'123'\<close>.
\<close>

theorem parse_by_pattern_witness:
  "three_digits_word ''123ABC'' = Some (Match [Some ''123''] fmempty)
   \<and> tuple_of_str ''123ABC'' three_digits_word = Inr [Some ''123'']
   \<and> dict_of_str ''123ABC'' three_digits_word = Inr fmempty"
proof -
  have h: "three_digits_word ''123ABC'' = Some (Match [Some ''123''] fmempty)"
    by (simp add: three_digits_word_def is_digit_def is_word_def is_alnum_def)
  show ?thesis
    using h parse_by_pattern [of three_digits_word "''123ABC''" "Match [Some ''123''] fmempty"]
    by simp
qed

lemma four_digits_no_match:
  "four_digits ''123ABC'' = None
   \<and> tuple_of_str ''123ABC'' four_digits = Inl (KeyValidationError None)"
  by (simp add: tuple_of_str_def four_digits_def is_digit_def)

lemma domain_before_com_match:
  "dict_of_str ''gmail.com'' domain_before_com = Inr (fmupd ''Domain'' (Some ''gmail'') fmempty)"
  by (simp add: dict_of_str_def domain_before_com_def is_digit_def is_alnum_def Let_def)

section \<open>Format templates\<close>

lemma emit_simps:
  "emit out None = None"
  "emit out (Some (Inl e)) = Some (Inl e)"
  "emit out (Some (Inr s)) = Some (Inr (out @ s))"
  by (simp_all add: emit_def)

lemma emit_value_simps:
  "emit_value None rest = None"
  "emit_value (Some (Inl e)) rest = Some (Inl e)"
  "emit_value (Some (Inr s)) rest = emit s rest"
  by (simp_all add: emit_value_def)

lemma format_value_empty: "format_value v [] = Some (Inr (str v))"
  by (simp add: format_value_def)

lemmas format_eval = format_def get_field_def getitem_args_def beyond_fragment_def emit_simps
  emit_value_simps field_name_def field_spec_def format_value_empty str_def digit_char_def
  is_digit_def

lemma format_from_Text:
  "format_from st args kwargs (template_of (Text c # ps)) =
     emit [c] (format_from st args kwargs (template_of ps))"
  by simp

lemma takeWhile_until: "x \<notin> set xs \<Longrightarrow> takeWhile (\<lambda>y. y \<noteq> x) (xs @ x # ys) = xs"
  by (induction xs) auto

lemma dropWhile_until: "x \<notin> set xs \<Longrightarrow> dropWhile (\<lambda>y. y \<noteq> x) (xs @ x # ys) = x # ys"
  by (induction xs) auto

lemma format_from_open:
  "c' \<noteq> CHR ''{'' \<Longrightarrow>
   format_from st args kwargs (CHR ''{'' # c' # cs') =
     (let field = takeWhile (\<lambda>x. x \<noteq> CHR ''}'') (c' # cs');
          rest = dropWhile (\<lambda>x. x \<noteq> CHR ''}'') (c' # cs')
      in if beyond_fragment field then None
         else if rest = [] then Some (Inl ValueError)
         else (case get_field st args kwargs (field_name field) of
                 Inl e \<Rightarrow> Some (Inl e)
               | Inr (v, st') \<Rightarrow>
                   emit_value (format_value v (field_spec field))
                     (format_from st' args kwargs (tl rest))))"
  by (simp del: takeWhile.simps dropWhile.simps)

lemma format_from_Field:
  assumes "CHR ''}'' \<notin> set field" and "\<not> beyond_fragment field"
  shows "format_from st args kwargs (template_of (Field field # ps)) =
     (case get_field st args kwargs (field_name field) of
        Inl e \<Rightarrow> Some (Inl e)
      | Inr (v, st') \<Rightarrow>
          emit_value (format_value v (field_spec field))
            (format_from st' args kwargs (template_of ps)))"
proof -
  let ?cs = "field @ CHR ''}'' # template_of ps"
  let ?P = "\<lambda>x. x \<noteq> CHR ''}''"
  have tw: "takeWhile ?P ?cs = field"
    using assms(1) by (rule takeWhile_until)
  have dw: "dropWhile ?P ?cs = CHR ''}'' # template_of ps"
    using assms(1) by (rule dropWhile_until)
  have hd: "hd ?cs \<noteq> CHR ''{''"
    using assms(2) by (cases field) (auto simp: beyond_fragment_def)
  obtain c' cs' where cs: "?cs = c' # cs'" by (cases ?cs) auto
  with hd have c': "c' \<noteq> CHR ''{''" by simp
  have "format_from st args kwargs (CHR ''{'' # ?cs) =
     (let field = takeWhile ?P ?cs; rest = dropWhile ?P ?cs
      in if beyond_fragment field then None
         else if rest = [] then Some (Inl ValueError)
         else (case get_field st args kwargs (field_name field) of
                 Inl e \<Rightarrow> Some (Inl e)
               | Inr (v, st') \<Rightarrow>
                   emit_value (format_value v (field_spec field))
                     (format_from st' args kwargs (tl rest))))"
    unfolding cs using c' by (rule format_from_open)
  also have "\<dots> = (case get_field st args kwargs (field_name field) of
        Inl e \<Rightarrow> Some (Inl e)
      | Inr (v, st') \<Rightarrow>
          emit_value (format_value v (field_spec field))
            (format_from st' args kwargs (template_of ps)))"
    unfolding tw dw Let_def using assms(2) by (simp cong: sum.case_cong)
  finally show ?thesis by simp
qed



lemma get_field_keyword:
  "keyword_name name \<Longrightarrow> get_field st args kwargs name =
     (case fmlookup kwargs name of None \<Rightarrow> Inl KeyError | Some v \<Rightarrow> Inr (v, st))"
  by (simp add: get_field_def keyword_name_def)

lemma keyword_name_fragment:
  "keyword_name name \<Longrightarrow>
   CHR ''}'' \<notin> set name \<and> \<not> beyond_fragment name \<and> field_name name = name
   \<and> field_spec name = []"
proof -
  assume k: "keyword_name name"
  then have "CHR '':'' \<notin> set name" by (auto simp: keyword_name_def list_ex_iff)
  then have n: "field_name name = name"
    by (auto simp: field_name_def takeWhile_eq_all_conv)
  with k show ?thesis
    by (auto simp: keyword_name_def beyond_fragment_def field_spec_def list_ex_iff)
qed

lemma format_from_named:
  assumes "list_all keyword_name (field_names ps)"
  shows "format_from st args kwargs (template_of ps) =
     (if list_all (\<lambda>name. name |\<in>| fmdom kwargs) (field_names ps)
      then Some (Inr (populate_named ps kwargs))
      else Some (Inl KeyError))"
  using assms
proof (induction ps)
  case Nil
  then show ?case by simp
next
  case (Cons p ps)
  show ?case
  proof (cases p)
    case (Text c)
    with Cons show ?thesis
      by (simp only: format_from_Text) (simp add: emit_simps)
  next
    case (Field name)
    with Cons.prems have name: "keyword_name name"
      and rest: "list_all keyword_name (field_names ps)"
      by simp_all
    note frag = keyword_name_fragment [OF name]
    have step: "format_from st args kwargs (template_of (Field name # ps)) =
      (case get_field st args kwargs (field_name name) of
        Inl e \<Rightarrow> Some (Inl e)
      | Inr (v, st') \<Rightarrow>
          emit_value (format_value v (field_spec name))
            (format_from st' args kwargs (template_of ps)))"
      using frag by (intro format_from_Field) simp_all
    from frag have plain: "field_name name = name" "field_spec name = []"
      by simp_all
    show ?thesis unfolding Field step plain
      using Cons.IH [OF rest]
      by (auto simp: get_field_keyword [OF name] format_value_def emit_simps emit_value_simps
          fmlookup_dom_iff split: option.splits)
  qed
qed















text \<open>
  C9 as stated fails. The dict \<^verbatim>\<open>{'A': 'a', 'B': 'b'}\<close> has the field \<^verbatim>\<open>'B'\<close> beyond the
  placeholder of the template \<^verbatim>\<open>'{A}'\<close>, and \<open>str_of_dict\<close> returns \<^verbatim>\<open>'a'\<close>.
\<close>

theorem str_of_dict_counterexample:
  "template_of [Field ''A''] = ''{A}''
   \<and> ''B'' |\<in>| fmdom (fmupd ''A'' (PStr ''a'') (fmupd ''B'' (PStr ''b'') fmempty))
   \<and> ''B'' \<notin> set (field_names [Field ''A''])
   \<and> str_of_dict (fmupd ''A'' (PStr ''a'') (fmupd ''B'' (PStr ''b'') fmempty)) ''{A}''
       = Some (Inr ''a'')"
  by (simp add: str_of_dict_def format_eval)

text \<open>
  C9, amended. For a dict \<open>d\<close> and a template of literal text and named placeholders: when
  every placeholder's name is a key of \<open>d\<close>, \<open>str_of_dict\<close> returns the template with each
  placeholder replaced by the value of its name (keys of \<open>d\<close> that the template does not
  use are ignored); when some placeholder's name is not a key of \<open>d\<close>, it raises the key
  validation error that wraps the \<open>KeyError\<close>. Whatever error \<^verbatim>\<open>str.format\<close> raises,
  \<open>str_of_dict\<close> raises the key validation error that wraps it.
\<close>

theorem str_of_dict_named:
  "(list_all keyword_name (field_names ps) \<longrightarrow>
      str_of_dict d (template_of ps) =
        (if list_all (\<lambda>name. name |\<in>| fmdom d) (field_names ps)
         then Some (Inr (populate_named ps d))
         else Some (Inl (KeyValidationError (Some KeyError)))))
   \<and> (format str_format [] d = Some (Inl e) \<longrightarrow>
        str_of_dict d str_format = Some (Inl (KeyValidationError (Some e))))"
  by (simp add: str_of_dict_def format_def format_from_named)

text \<open>
  C9, amended, at the dict \<^verbatim>\<open>{'A': 'a', 'B': 'b'}\<close> of the docstring: \<^verbatim>\<open>'{A}{B}'\<close> is filled,
  and \<^verbatim>\<open>'{A}{C}'\<close>, which names a field the dict lacks, raises.
\<close>

theorem str_of_dict_named_witness:
  "list_all keyword_name (field_names [Field ''A'', Field ''B''])
   \<and> template_of [Field ''A'', Field ''B''] = ''{A}{B}''
   \<and> str_of_dict (fmupd ''A'' (PStr ''a'') (fmupd ''B'' (PStr ''b'') fmempty)) ''{A}{B}''
       = Some (Inr ''ab'')
   \<and> format ''{A}{C}'' [] (fmupd ''A'' (PStr ''a'') (fmupd ''B'' (PStr ''b'') fmempty))
       = Some (Inl KeyError)
   \<and> str_of_dict (fmupd ''A'' (PStr ''a'') (fmupd ''B'' (PStr ''b'') fmempty)) ''{A}{C}''
       = Some (Inl (KeyValidationError (Some KeyError)))"
proof -
  have h: "format ''{A}{C}'' [] (fmupd ''A'' (PStr ''a'') (fmupd ''B'' (PStr ''b'') fmempty))
       = Some (Inl KeyError)"
    by (simp add: format_eval)
  show ?thesis
    using h
      str_of_dict_named [of "[Field ''A'', Field ''B'']"
        "fmupd ''A'' (PStr ''a'') (fmupd ''B'' (PStr ''b'') fmempty)" "''{A}{C}''" KeyError]
    by (simp add: keyword_name_def is_digit_def str_def)
qed

end
